theory Spec2Isabelle
  imports Main
begin

section \<open>EC2 instance discovery: data model\<close>

text \<open>
  The embedding follows \<^verbatim>\<open>lib/promscrape/discovery/ec2/instance.go\<close>.
  A Go struct whose only field is \<^verbatim>\<open>Items\<close> (the XML wrappers \<^verbatim>\<open>ReservationSet\<close>,
  \<^verbatim>\<open>InstanceSet\<close>, \<^verbatim>\<open>NetworkInterfaceSet\<close>, \<^verbatim>\<open>Ipv6AddressesSet\<close>, \<^verbatim>\<open>TagSet\<close>,
  \<^verbatim>\<open>AvailabilityZoneInfo\<close>) is the list of its items. Go strings and byte slices are
  \<^typ>\<open>string\<close>; \<^verbatim>\<open>len(s) == 0\<close> is \<open>s = []\<close>. A Go \<^verbatim>\<open>map[string]string\<close> is a partial
  function; reading a missing key gives the empty string.
\<close>

record Placement =
  AvailabilityZone :: string

record InstanceState =
  Name :: string

record NetworkInterface =
  SubnetID :: string
  IPv6AddressesSet :: "string list"

record Tag =
  Key :: string
  Value :: string

record Instance =
  PrivateIPAddress :: string
  Architecture :: string
  Placement :: Placement
  ImageID :: string
  ID :: string
  Lifecycle :: string
  State :: InstanceState
  Type :: string
  Platform :: string
  SubnetID :: string
  PrivateDNSName :: string
  PublicDNSName :: string
  PublicIPAddress :: string
  VPCID :: string
  NetworkInterfaceSet :: "NetworkInterface list"
  TagSet :: "Tag list"

record Reservation =
  OwnerID :: string
  InstanceSet :: "Instance list"

record InstancesResponse =
  ReservationSet :: "Reservation list"
  NextPageToken :: string

record AvailabilityZone =
  ZoneName :: string
  ZoneID :: string

record AvailabilityZonesResponse =
  AvailabilityZoneInfo :: "AvailabilityZone list"

type_synonym labels = "string \<rightharpoonup> string"

text \<open>
  Errors. \<open>External\<close> is an error value of a collaborator (the transport, the XML
  decoder); \<open>Errorf msg e\<close> is \<^verbatim>\<open>fmt.Errorf(msg + ": %w", e)\<close> and \<open>ErrorfQ msg d e\<close> is
  \<^verbatim>\<open>fmt.Errorf(msg + " %q: %w", d, e)\<close>.
\<close>

datatype error =
    External string
  | Errorf string error
  | ErrorfQ string string error

text \<open>
  Modelled from the spec: the type \<^verbatim>\<open>apiConfig\<close> is declared outside this file. The
  specification gives it "the scrape port to embed in target addresses" and a
  "lazily-populated zone cache". These are the fields \<^verbatim>\<open>port\<close> and \<^verbatim>\<open>azMap\<close> read
  here (\<open>None\<close> is Go's \<^verbatim>\<open>nil\<close> map). The lock \<^verbatim>\<open>azMapLock\<close> has no counterpart in
  this sequential model.
\<close>

record apiConfig =
  port :: int
  azMap :: "labels option"

text \<open>
  The collaborators of this file. \<^verbatim>\<open>getEC2APIResponse(cfg, action, token)\<close> performs a
  request; its answer may depend on everything requested before, so the transport is a
  function of the list of earlier requests, and that list is the state threaded through
  the model. \<^verbatim>\<open>xml.Unmarshal\<close> into the two response types and
  \<^verbatim>\<open>discoveryutils.SanitizeLabelName\<close> are pure functions taken as parameters.
\<close>

type_synonym request = "string \<times> string"

record env =
  transport :: "request list \<Rightarrow> string \<Rightarrow> string \<Rightarrow> error + string"
  unmarshalInstances :: "string \<Rightarrow> error + InstancesResponse"
  unmarshalZones :: "string \<Rightarrow> error + AvailabilityZonesResponse"
  SanitizeLabelName :: "string \<Rightarrow> string"

definition getEC2APIResponse ::
  "env \<Rightarrow> request list \<Rightarrow> string \<Rightarrow> string \<Rightarrow> (error + string) \<times> request list" where
  "getEC2APIResponse E reqs action pageToken =
     (transport E reqs action pageToken, reqs @ [(action, pageToken)])"

section \<open>Helpers from the Go standard library\<close>

text \<open>\<^verbatim>\<open>strings.Join(elems, sep)\<close>.\<close>

fun Join :: "string list \<Rightarrow> string \<Rightarrow> string" where
  "Join [] sep = []"
| "Join [x] sep = x"
| "Join (x # y # ys) sep = x @ sep @ Join (y # ys) sep"

text \<open>\<^verbatim>\<open>strconv.Itoa\<close>: the decimal rendering of an integer.\<close>

definition digit :: "nat \<Rightarrow> char" where
  "digit n = ''0123456789'' ! (n mod 10)"

fun decimal :: "nat \<Rightarrow> string" where
  "decimal n = (if n < 10 then [digit n] else decimal (n div 10) @ [digit n])"

declare decimal.simps [simp del]

definition Itoa :: "int \<Rightarrow> string" where
  "Itoa i = (if i < 0 then CHR ''-'' # decimal (nat (- i)) else decimal (nat i))"

text \<open>
  Modelled from the spec: \<^verbatim>\<open>discoveryutils.JoinHostPort\<close> is not in this file. The
  specification constructs the address label "by joining the private IP and the
  configured port", written \<^verbatim>\<open>privateIp:port\<close>.
\<close>

definition JoinHostPort :: "string \<Rightarrow> int \<Rightarrow> string" where
  "JoinHostPort host p = host @ '':'' @ Itoa p"

section \<open>Label synthesis\<close>

text \<open>Reading a Go map: a missing key reads as the zero value.\<close>

definition lookupStr :: "labels \<Rightarrow> string \<Rightarrow> string" where
  "lookupStr m k = (case m k of None \<Rightarrow> [] | Some v \<Rightarrow> v)"

definition lookupBool :: "(string \<rightharpoonup> bool) \<Rightarrow> string \<Rightarrow> bool" where
  "lookupBool m k = (case m k of None \<Rightarrow> False | Some b \<Rightarrow> b)"

text \<open>
  The loop over \<^verbatim>\<open>inst.NetworkInterfaceSet.Items\<close>, with its three locals
  \<^verbatim>\<open>subnets\<close>, \<^verbatim>\<open>seenSubnets\<close> and \<^verbatim>\<open>ipv6Addrs\<close>. An interface with an empty subnet id
  is skipped by \<^verbatim>\<open>continue\<close> before anything is collected from it.
\<close>

fun interfacesLoop ::
  "NetworkInterface list \<Rightarrow> string list \<Rightarrow> (string \<rightharpoonup> bool) \<Rightarrow> string list
     \<Rightarrow> string list \<times> string list" where
  "interfacesLoop [] subnets seenSubnets ipv6Addrs = (subnets, ipv6Addrs)"
| "interfacesLoop (ni # nis) subnets seenSubnets ipv6Addrs =
     (if NetworkInterface.SubnetID ni = [] then
        interfacesLoop nis subnets seenSubnets ipv6Addrs
      else if \<not> lookupBool seenSubnets (NetworkInterface.SubnetID ni) then
        interfacesLoop nis (subnets @ [NetworkInterface.SubnetID ni])
          (seenSubnets(NetworkInterface.SubnetID ni \<mapsto> True))
          (ipv6Addrs @ IPv6AddressesSet ni)
      else
        interfacesLoop nis subnets seenSubnets (ipv6Addrs @ IPv6AddressesSet ni))"

text \<open>The loop over \<^verbatim>\<open>inst.TagSet.Items\<close>.\<close>

fun tagsLoop :: "(string \<Rightarrow> string) \<Rightarrow> Tag list \<Rightarrow> labels \<Rightarrow> labels" where
  "tagsLoop san [] m = m"
| "tagsLoop san (t # ts) m =
     (if Key t = [] \<or> Value t = [] then tagsLoop san ts m
      else tagsLoop san ts (m(''__meta_ec2_tag_'' @ san (Key t) \<mapsto> Value t)))"

text \<open>The map literal that \<^verbatim>\<open>appendTargetLabels\<close> starts from.\<close>

definition scalarLabels :: "Instance \<Rightarrow> string \<Rightarrow> int \<Rightarrow> labels \<Rightarrow> labels" where
  "scalarLabels inst ownerID p zoneMap =
     [''__address__'' \<mapsto> JoinHostPort (PrivateIPAddress inst) p,
      ''__meta_ec2_architecture'' \<mapsto> Architecture inst,
      ''__meta_ec2_ami'' \<mapsto> ImageID inst,
      ''__meta_ec2_availability_zone'' \<mapsto> AvailabilityZone (Placement inst),
      ''__meta_ec2_availability_zone_id'' \<mapsto>
         lookupStr zoneMap (AvailabilityZone (Placement inst)),
      ''__meta_ec2_instance_id'' \<mapsto> ID inst,
      ''__meta_ec2_instance_lifecycle'' \<mapsto> Lifecycle inst,
      ''__meta_ec2_instance_state'' \<mapsto> Name (State inst),
      ''__meta_ec2_instance_type'' \<mapsto> Type inst,
      ''__meta_ec2_owner_id'' \<mapsto> ownerID,
      ''__meta_ec2_platform'' \<mapsto> Platform inst,
      ''__meta_ec2_primary_subnet_id'' \<mapsto> Instance.SubnetID inst,
      ''__meta_ec2_private_dns_name'' \<mapsto> PrivateDNSName inst,
      ''__meta_ec2_private_ip'' \<mapsto> PrivateIPAddress inst,
      ''__meta_ec2_public_dns_name'' \<mapsto> PublicDNSName inst,
      ''__meta_ec2_public_ip'' \<mapsto> PublicIPAddress inst,
      ''__meta_ec2_vpc_id'' \<mapsto> VPCID inst]"

text \<open>The block guarded by \<^verbatim>\<open>len(inst.VPCID) > 0\<close>.\<close>

definition vpcLabels :: "Instance \<Rightarrow> labels \<Rightarrow> labels" where
  "vpcLabels inst m =
     (if VPCID inst \<noteq> [] then
        (case interfacesLoop (NetworkInterfaceSet inst) [] Map.empty [] of
           (subnets, ipv6Addrs) \<Rightarrow>
             let m1 = m(''__meta_ec2_subnet_id'' \<mapsto> '','' @ Join subnets '','' @ '','')
             in if ipv6Addrs \<noteq> [] then
                  m1(''__meta_ec2_ipv6_addresses'' \<mapsto> '','' @ Join ipv6Addrs '','' @ '','')
                else m1)
      else m)"

text \<open>
  The map \<^verbatim>\<open>m\<close> that \<^verbatim>\<open>appendTargetLabels\<close> builds for an instance with a private IP
  address: the literal, then the VPC block, then the tags.
\<close>

definition targetLabels ::
  "(string \<Rightarrow> string) \<Rightarrow> Instance \<Rightarrow> string \<Rightarrow> int \<Rightarrow> labels \<Rightarrow> labels" where
  "targetLabels san inst ownerID p zoneMap =
     tagsLoop san (TagSet inst) (vpcLabels inst (scalarLabels inst ownerID p zoneMap))"

definition appendTargetLabels ::
  "(string \<Rightarrow> string) \<Rightarrow> Instance \<Rightarrow> labels list \<Rightarrow> string \<Rightarrow> int \<Rightarrow> labels
     \<Rightarrow> labels list" where
  "appendTargetLabels san inst ms ownerID p zoneMap =
     (if PrivateIPAddress inst = [] then ms
      else ms @ [targetLabels san inst ownerID p zoneMap])"

section \<open>Fetching reservations and zones\<close>

definition parseInstancesResponse :: "env \<Rightarrow> string \<Rightarrow> error + InstancesResponse" where
  "parseInstancesResponse E data =
     (case unmarshalInstances E data of
        Inl err \<Rightarrow> Inl (ErrorfQ ''cannot unmarshal InstancesResponse from'' data err)
      | Inr v \<Rightarrow> Inr v)"

definition parseAvailabilityZonesResponse ::
  "env \<Rightarrow> string \<Rightarrow> error + AvailabilityZonesResponse" where
  "parseAvailabilityZonesResponse E data =
     (case unmarshalZones E data of
        Inl err \<Rightarrow>
          Inl (ErrorfQ ''cannot unmarshal DescribeAvailabilityZonesResponse from'' data err)
      | Inr v \<Rightarrow> Inr v)"

text \<open>
  The \<^verbatim>\<open>for { ... }\<close> loop of \<^verbatim>\<open>getReservations\<close>, with its locals \<^verbatim>\<open>rs\<close> and
  \<^verbatim>\<open>pageToken\<close>. Nothing bounds the number of pages, so the loop is a partial function:
  \<open>None\<close> means that it never returns.
\<close>

partial_function (option) getReservationsLoop ::
  "env \<Rightarrow> request list \<Rightarrow> Reservation list \<Rightarrow> string
     \<Rightarrow> ((error + Reservation list) \<times> request list) option" where
  "getReservationsLoop E reqs rs pageToken =
     (case getEC2APIResponse E reqs ''DescribeInstances'' pageToken of
        (Inl err, reqs') \<Rightarrow> Some (Inl (Errorf ''cannot obtain instances'' err), reqs')
      | (Inr data, reqs') \<Rightarrow>
          (case parseInstancesResponse E data of
             Inl err \<Rightarrow> Some (Inl (Errorf ''cannot parse instance list'' err), reqs')
           | Inr ir \<Rightarrow>
               if NextPageToken ir = [] then Some (Inr (rs @ ReservationSet ir), reqs')
               else getReservationsLoop E reqs' (rs @ ReservationSet ir) (NextPageToken ir)))"

declare getReservationsLoop.simps [code]

definition getReservations ::
  "env \<Rightarrow> request list \<Rightarrow> ((error + Reservation list) \<times> request list) option" where
  "getReservations E reqs = getReservationsLoop E reqs [] []"

definition getAvailabilityZones ::
  "env \<Rightarrow> request list \<Rightarrow> (error + AvailabilityZone list) \<times> request list" where
  "getAvailabilityZones E reqs =
     (case getEC2APIResponse E reqs ''DescribeAvailabilityZones'' [] of
        (Inl err, reqs') \<Rightarrow> (Inl (Errorf ''cannot obtain availability zones'' err), reqs')
      | (Inr data, reqs') \<Rightarrow>
          (case parseAvailabilityZonesResponse E data of
             Inl err \<Rightarrow> (Inl (Errorf ''cannot parse availability zones list'' err), reqs')
           | Inr azr \<Rightarrow> (Inr (AvailabilityZoneInfo azr), reqs')))"

text \<open>The loop \<^verbatim>\<open>cfg.azMap[az.ZoneName] = az.ZoneID\<close> of \<^verbatim>\<open>getAZMap\<close>.\<close>

fun zonesLoop :: "AvailabilityZone list \<Rightarrow> labels \<Rightarrow> labels" where
  "zonesLoop [] m = m"
| "zonesLoop (az # azs) m = zonesLoop azs (m(ZoneName az \<mapsto> ZoneID az))"

text \<open>
  \<^verbatim>\<open>getAZMap\<close> returns the zone map together with the configuration it has updated
  through the pointer. The warning it logs on failure is not part of the model.
\<close>

definition getAZMap ::
  "env \<Rightarrow> apiConfig \<Rightarrow> request list \<Rightarrow> labels \<times> apiConfig \<times> request list" where
  "getAZMap E cfg reqs =
     (case azMap cfg of
        Some m \<Rightarrow> (m, cfg, reqs)
      | None \<Rightarrow>
          (case getAvailabilityZones E reqs of
             (Inl err, reqs') \<Rightarrow> (Map.empty, cfg\<lparr>azMap := Some Map.empty\<rparr>, reqs')
           | (Inr azs, reqs') \<Rightarrow>
               (zonesLoop azs Map.empty, cfg\<lparr>azMap := Some (zonesLoop azs Map.empty)\<rparr>,
                reqs')))"

section \<open>The discovery call\<close>

text \<open>The two nested \<^verbatim>\<open>range\<close> loops of \<^verbatim>\<open>getInstancesLabels\<close>.\<close>

fun instancesLoop ::
  "(string \<Rightarrow> string) \<Rightarrow> int \<Rightarrow> labels \<Rightarrow> string \<Rightarrow> Instance list \<Rightarrow> labels list
     \<Rightarrow> labels list" where
  "instancesLoop san p zoneMap ownerID [] ms = ms"
| "instancesLoop san p zoneMap ownerID (inst # insts) ms =
     instancesLoop san p zoneMap ownerID insts
       (appendTargetLabels san inst ms ownerID p zoneMap)"

fun reservationsLoop ::
  "(string \<Rightarrow> string) \<Rightarrow> int \<Rightarrow> labels \<Rightarrow> Reservation list \<Rightarrow> labels list \<Rightarrow> labels list" where
  "reservationsLoop san p zoneMap [] ms = ms"
| "reservationsLoop san p zoneMap (r # rs) ms =
     reservationsLoop san p zoneMap rs
       (instancesLoop san p zoneMap (OwnerID r) (InstanceSet r) ms)"

definition getInstancesLabels ::
  "env \<Rightarrow> apiConfig \<Rightarrow> request list
     \<Rightarrow> ((error + labels list) \<times> apiConfig \<times> request list) option" where
  "getInstancesLabels E cfg reqs =
     (case getReservations E reqs of
        None \<Rightarrow> None
      | Some (Inl err, reqs') \<Rightarrow> Some (Inl err, cfg, reqs')
      | Some (Inr rs, reqs') \<Rightarrow>
          (case getAZMap E cfg reqs' of
             (zoneMap, cfg', reqs'') \<Rightarrow>
               Some (Inr (reservationsLoop (SanitizeLabelName E) (port cfg) zoneMap rs []),
                     cfg', reqs'')))"

section \<open>Specification-level functions and example inputs\<close>

text \<open>
  De-duplication as the specification words it: each value is kept where it occurs
  first, every later occurrence is dropped, and the order of what is kept does not change.
\<close>

fun dedupFirst :: "'a list \<Rightarrow> 'a list" where
  "dedupFirst [] = []"
| "dedupFirst (x # xs) = x # filter (\<lambda>y. y \<noteq> x) (dedupFirst xs)"

text \<open>An instance with a private IP address, for the concrete instances of the theorems.\<close>

definition instanceWith :: "string \<Rightarrow> NetworkInterface list \<Rightarrow> Tag list \<Rightarrow> Instance" where
  "instanceWith vpc nis tags =
     \<lparr>PrivateIPAddress = ''10.0.0.7'', Architecture = ''x86_64'',
      Placement = \<lparr>AvailabilityZone = ''us-east-1a''\<rparr>, ImageID = ''ami-1'', ID = ''i-1'',
      Lifecycle = ''spot'', State = \<lparr>Name = ''running''\<rparr>, Type = ''t3.micro'',
      Platform = ''linux'', SubnetID = ''s1'', PrivateDNSName = ''ip-10-0-0-7.internal'',
      PublicDNSName = ''ec2-1.example'', PublicIPAddress = ''54.0.0.1'', VPCID = vpc,
      NetworkInterfaceSet = nis, TagSet = tags\<rparr>"

text \<open>A zone map, a sanitizer and network interfaces for the concrete instances.\<close>

definition exampleZones :: labels where
  "exampleZones = [''us-east-1a'' \<mapsto> ''use1-az1'']"

definition colonToUnderscore :: "string \<Rightarrow> string" where
  "colonToUnderscore s = map (\<lambda>c. if c = CHR '':'' then CHR ''_'' else c) s"

definition nic :: "string \<Rightarrow> string list \<Rightarrow> NetworkInterface" where
  "nic subnet addrs = \<lparr>NetworkInterface.SubnetID = subnet, IPv6AddressesSet = addrs\<rparr>"

text \<open>Three pages of reservations and collaborators that serve them.\<close>

definition reservation1 :: Reservation where
  "reservation1 = \<lparr>OwnerID = ''owner-1'',
     InstanceSet = [instanceWith ''vpc-1'' [nic ''s1'' [''a'']] [],
                    (instanceWith [] [] [])\<lparr>PrivateIPAddress := []\<rparr>]\<rparr>"

definition reservation2 :: Reservation where
  "reservation2 = \<lparr>OwnerID = ''owner-2'', InstanceSet = []\<rparr>"

definition reservation3 :: Reservation where
  "reservation3 = \<lparr>OwnerID = ''owner-3'',
     InstanceSet = [(instanceWith [] [] [])\<lparr>PrivateIPAddress := ''10.0.0.9''\<rparr>]\<rparr>"

definition examplePages :: "InstancesResponse list" where
  "examplePages =
     [\<lparr>ReservationSet = [reservation1], NextPageToken = ''t2''\<rparr>,
      \<lparr>ReservationSet = [reservation2], NextPageToken = ''t3''\<rparr>,
      \<lparr>ReservationSet = [reservation3], NextPageToken = []\<rparr>]"

text \<open>A transport that answers by action and token, with a payload named after the token.\<close>

definition exampleTransport :: "request list \<Rightarrow> string \<Rightarrow> string \<Rightarrow> error + string" where
  "exampleTransport reqs action tok =
     (if action = ''DescribeInstances'' then Inr (''page:'' @ tok)
      else if action = ''DescribeAvailabilityZones'' then Inr ''zones''
      else Inl (External ''unknown action''))"

definition exampleUnmarshalInstances :: "string \<Rightarrow> error + InstancesResponse" where
  "exampleUnmarshalInstances data =
     (if data = ''page:'' then Inr (examplePages ! 0)
      else if data = ''page:t2'' then Inr (examplePages ! 1)
      else if data = ''page:t3'' then Inr (examplePages ! 2)
      else Inl (External ''EOF''))"

definition exampleUnmarshalZones :: "string \<Rightarrow> error + AvailabilityZonesResponse" where
  "exampleUnmarshalZones data =
     (if data = ''zones'' then
        Inr \<lparr>AvailabilityZoneInfo = [\<lparr>ZoneName = ''us-east-1a'', ZoneID = ''use1-az1''\<rparr>]\<rparr>
      else Inl (External ''EOF''))"

definition exampleEnv :: env where
  "exampleEnv = \<lparr>transport = exampleTransport, unmarshalInstances = exampleUnmarshalInstances,
     unmarshalZones = exampleUnmarshalZones, SanitizeLabelName = colonToUnderscore\<rparr>"

definition exampleConfig :: apiConfig where
  "exampleConfig = \<lparr>port = 9100, azMap = None\<rparr>"

text \<open>
  The instances that get a label map, each with the owner id of its reservation, in the
  order of the two nested loops.
\<close>

definition eligibleInstances :: "Reservation list \<Rightarrow> (string \<times> Instance) list" where
  "eligibleInstances rs =
     concat (map (\<lambda>r. map (\<lambda>inst. (OwnerID r, inst))
                     (filter (\<lambda>inst. PrivateIPAddress inst \<noteq> []) (InstanceSet r))) rs)"

text \<open>
  The transport and the decoder serve the pages \<open>pgs\<close> one after the other: the request
  with the current token is answered by a payload that decodes to the next page, whose
  token is the token of the following request.
\<close>

fun servesPages :: "env \<Rightarrow> request list \<Rightarrow> string \<Rightarrow> InstancesResponse list \<Rightarrow> bool" where
  "servesPages E reqs tok [] = True"
| "servesPages E reqs tok (pg # pgs) =
     (case transport E reqs ''DescribeInstances'' tok of
        Inl err \<Rightarrow> False
      | Inr data \<Rightarrow>
          (case unmarshalInstances E data of
             Inl err \<Rightarrow> False
           | Inr v \<Rightarrow>
               v = pg \<and>
               servesPages E (reqs @ [(''DescribeInstances'', tok)]) (NextPageToken pg) pgs))"

text \<open>Transports that fail: on one request, or on the first zone request only.\<close>

definition timeoutOn ::
  "string \<Rightarrow> string \<Rightarrow> request list \<Rightarrow> string \<Rightarrow> string \<Rightarrow> error + string" where
  "timeoutOn a t reqs action tok =
     (if action = a \<and> tok = t then Inl (External ''timeout'')
      else exampleTransport reqs action tok)"

definition flakyZones :: "request list \<Rightarrow> string \<Rightarrow> string \<Rightarrow> error + string" where
  "flakyZones reqs action tok =
     (if action = ''DescribeAvailabilityZones'' \<and>
         (''DescribeAvailabilityZones'', []) \<notin> set reqs
      then Inl (External ''timeout'')
      else exampleTransport reqs action tok)"

text \<open>
  A zone list in two pages: the payload of the first request stands for a response that
  carries the continuation token \<open>z2\<close>, and a request with that token would return a
  second zone.
\<close>

definition pagedZonesTransport :: "request list \<Rightarrow> string \<Rightarrow> string \<Rightarrow> error + string" where
  "pagedZonesTransport reqs action tok =
     (if action = ''DescribeAvailabilityZones'' then Inr (''zones:'' @ tok)
      else exampleTransport reqs action tok)"

definition pagedUnmarshalZones :: "string \<Rightarrow> error + AvailabilityZonesResponse" where
  "pagedUnmarshalZones data =
     (if data = ''zones:'' then
        Inr \<lparr>AvailabilityZoneInfo = [\<lparr>ZoneName = ''us-east-1a'', ZoneID = ''use1-az1''\<rparr>]\<rparr>
      else if data = ''zones:z2'' then
        Inr \<lparr>AvailabilityZoneInfo = [\<lparr>ZoneName = ''us-east-1b'', ZoneID = ''use1-az2''\<rparr>]\<rparr>
      else Inl (External ''EOF''))"

definition failingEnv :: env where
  "failingEnv = exampleEnv\<lparr>transport := timeoutOn ''DescribeInstances'' ''t3''\<rparr>"

definition flakyEnv :: env where
  "flakyEnv = exampleEnv\<lparr>transport := flakyZones\<rparr>"

section \<open>The loops of the label builder in closed form\<close>

lemma set_dedupFirst: "set (dedupFirst xs) = set xs"
  by (induction xs) auto

lemma distinct_dedupFirst: "distinct (dedupFirst xs)"
  by (induction xs) (auto simp: set_dedupFirst)

text \<open>A label whose name does not start with the tag prefix is left alone by the tags.\<close>

lemma tagsLoop_other:
  "(\<And>s. k \<noteq> ''__meta_ec2_tag_'' @ s) \<Longrightarrow> tagsLoop san ts m k = m k"
  by (induction ts arbitrary: m) auto

lemma tagsLoop_key:
  "tagsLoop san ts m key =
     (case filter (\<lambda>t. Key t \<noteq> [] \<and> Value t \<noteq> [] \<and> key = ''__meta_ec2_tag_'' @ san (Key t)) ts of
        [] \<Rightarrow> m key
      | t # ts' \<Rightarrow> Some (Value (last (t # ts'))))"
proof (induction ts arbitrary: m)
  case Nil
  show ?case by simp
next
  case (Cons t ts)
  show ?case
    by (simp add: Cons.IH split: list.split)
qed

lemma tagsLoop_tag:
  "tagsLoop san ts m (''__meta_ec2_tag_'' @ k) =
     (case filter (\<lambda>t. Key t \<noteq> [] \<and> Value t \<noteq> [] \<and> san (Key t) = k) ts of
        [] \<Rightarrow> m (''__meta_ec2_tag_'' @ k)
      | t # ts' \<Rightarrow> Some (Value (last (t # ts'))))"
proof -
  have P: "(\<lambda>t. Key t \<noteq> [] \<and> Value t \<noteq> [] \<and> ''__meta_ec2_tag_'' @ k = ''__meta_ec2_tag_'' @ san (Key t))
        = (\<lambda>t. Key t \<noteq> [] \<and> Value t \<noteq> [] \<and> san (Key t) = k)"
    by auto
  show ?thesis
    by (subst tagsLoop_key) (simp only: P)
qed

text \<open>
  The interface loop, under its invariant that \<^verbatim>\<open>seenSubnets\<close> holds exactly the
  subnet ids collected so far.
\<close>

lemma interfacesLoop_eq:
  "(\<And>k. lookupBool seen k \<longleftrightarrow> k \<in> set subnets) \<Longrightarrow>
   interfacesLoop nis subnets seen ipv6 =
     (subnets @ filter (\<lambda>s. s \<notin> set subnets)
         (dedupFirst (filter (\<lambda>s. s \<noteq> []) (map NetworkInterface.SubnetID nis))),
      ipv6 @ concat (map IPv6AddressesSet
         (filter (\<lambda>ni. NetworkInterface.SubnetID ni \<noteq> []) nis)))"
proof (induction nis arbitrary: subnets seen ipv6)
  case Nil
  show ?case by simp
next
  case (Cons ni nis)
  show ?case
  proof (cases "NetworkInterface.SubnetID ni = []")
    case True
    then show ?thesis by (simp add: Cons.IH [OF Cons.prems])
  next
    case nonempty: False
    show ?thesis
    proof (cases "lookupBool seen (NetworkInterface.SubnetID ni)")
      case True
      then have mem: "NetworkInterface.SubnetID ni \<in> set subnets" using Cons.prems by simp
      have flt: "filter (\<lambda>x. x \<noteq> NetworkInterface.SubnetID ni \<and> x \<notin> set subnets) xs
            = filter (\<lambda>x. x \<notin> set subnets) xs" for xs
        using mem by (induction xs) auto
      show ?thesis using True nonempty mem by (simp add: Cons.IH [OF Cons.prems] flt)
    next
      case False
      then have nmem: "NetworkInterface.SubnetID ni \<notin> set subnets" using Cons.prems by simp
      have inv: "\<And>k. lookupBool (seen(NetworkInterface.SubnetID ni \<mapsto> True)) k
                  \<longleftrightarrow> k \<in> set (subnets @ [NetworkInterface.SubnetID ni])"
        using Cons.prems by (auto simp: lookupBool_def)
      show ?thesis using False nonempty nmem by (simp add: Cons.IH [OF inv])
    qed
  qed
qed

lemma interfacesLoop_init:
  "interfacesLoop nis [] Map.empty [] =
     (dedupFirst (filter (\<lambda>s. s \<noteq> []) (map NetworkInterface.SubnetID nis)),
      concat (map IPv6AddressesSet (filter (\<lambda>ni. NetworkInterface.SubnetID ni \<noteq> []) nis)))"
  using interfacesLoop_eq [of Map.empty "[]" nis "[]"] by (simp add: lookupBool_def)

lemma targetLabels_subnet:
  "targetLabels san inst ownerID p zoneMap ''__meta_ec2_subnet_id'' =
     (if VPCID inst \<noteq> [] then
        Some ('','' @ Join (dedupFirst (filter (\<lambda>s. s \<noteq> [])
                (map NetworkInterface.SubnetID (NetworkInterfaceSet inst)))) '','' @ '','')
      else None)"
  by (simp add: targetLabels_def tagsLoop_other vpcLabels_def scalarLabels_def
      interfacesLoop_init Let_def)

lemma targetLabels_ipv6:
  "targetLabels san inst ownerID p zoneMap ''__meta_ec2_ipv6_addresses'' =
     (if VPCID inst \<noteq> [] \<and>
         concat (map IPv6AddressesSet
           (filter (\<lambda>ni. NetworkInterface.SubnetID ni \<noteq> []) (NetworkInterfaceSet inst))) \<noteq> []
      then
        Some ('','' @ Join (concat (map IPv6AddressesSet
           (filter (\<lambda>ni. NetworkInterface.SubnetID ni \<noteq> []) (NetworkInterfaceSet inst)))) '','' @ '','')
      else None)"
  by (simp add: targetLabels_def tagsLoop_other vpcLabels_def scalarLabels_def
      interfacesLoop_init Let_def)

lemma targetLabels_vpc_id:
  "targetLabels san inst ownerID p zoneMap ''__meta_ec2_vpc_id'' = Some (VPCID inst)"
  by (simp add: targetLabels_def tagsLoop_other vpcLabels_def scalarLabels_def
      interfacesLoop_init Let_def)

lemma targetLabels_tag:
  "targetLabels san inst ownerID p zoneMap (''__meta_ec2_tag_'' @ k) =
     (case filter (\<lambda>t. Key t \<noteq> [] \<and> Value t \<noteq> [] \<and> san (Key t) = k) (TagSet inst) of
        [] \<Rightarrow> None
      | t # ts \<Rightarrow> Some (Value (last (t # ts))))"
proof -
  have "vpcLabels inst (scalarLabels inst ownerID p zoneMap) (''__meta_ec2_tag_'' @ k) = None"
    by (simp add: vpcLabels_def scalarLabels_def Let_def split: prod.split)
  then show ?thesis
    unfolding targetLabels_def by (subst tagsLoop_tag) (simp only:)
qed


text \<open>With no non-empty subnet id at all the subnet-id label is still set, to two commas.\<close>

lemma subnet_label_without_subnets:
  "hd (appendTargetLabels id (instanceWith ''vpc-1'' [nic [] [''a'']] []) []
         ''owner'' 9100 exampleZones) ''__meta_ec2_subnet_id'' = Some '',,''"
  by (simp add: appendTargetLabels_def targetLabels_subnet instanceWith_def nic_def)

section \<open>The discovery call in closed form\<close>

text \<open>The example transport serves three pages; the fetch returns them in order.\<close>

lemma getReservations_example: "getReservations exampleEnv [] =
   Some (Inr [reservation1, reservation2, reservation3],
     [(''DescribeInstances'', []), (''DescribeInstances'', ''t2''), (''DescribeInstances'', ''t3'')])"
  by (simp add: getReservations_def getReservationsLoop.simps getEC2APIResponse_def
      parseInstancesResponse_def exampleEnv_def exampleTransport_def exampleUnmarshalInstances_def
      examplePages_def)

lemma instancesLoop_eq:
  "instancesLoop san p zoneMap ownerID insts ms =
     ms @ map (\<lambda>inst. targetLabels san inst ownerID p zoneMap)
            (filter (\<lambda>inst. PrivateIPAddress inst \<noteq> []) insts)"
  by (induction insts arbitrary: ms) (simp_all add: appendTargetLabels_def)

lemma reservationsLoop_eq:
  "reservationsLoop san p zoneMap rs ms =
     ms @ map (\<lambda>(ownerID, inst). targetLabels san inst ownerID p zoneMap) (eligibleInstances rs)"
  by (induction rs arbitrary: ms) (simp_all add: eligibleInstances_def instancesLoop_eq comp_def)

lemma targetLabels_scalar:
  assumes "\<And>s. k \<noteq> ''__meta_ec2_tag_'' @ s"
    and "k \<noteq> ''__meta_ec2_subnet_id''" and "k \<noteq> ''__meta_ec2_ipv6_addresses''"
  shows "targetLabels san inst ownerID p zoneMap k = scalarLabels inst ownerID p zoneMap k"
proof -
  have "vpcLabels inst m k = m k" for m
    using assms(2,3) by (simp add: vpcLabels_def Let_def split: prod.split)
  then show ?thesis
    by (simp add: targetLabels_def tagsLoop_other [OF assms(1)])
qed

lemma JoinHostPort_nonempty: "JoinHostPort host p \<noteq> []"
  by (simp add: JoinHostPort_def)

lemma getAZMap_cached:
  "getAZMap E cfg reqs = (zoneMap, cfg', reqs') \<Longrightarrow> azMap cfg' = Some zoneMap \<and> port cfg' = port cfg"
  by (auto simp add: getAZMap_def split: option.splits prod.splits sum.splits)

lemma getInstancesLabels_ok:
  assumes "getReservations E reqs = Some (Inr rs, reqs1)"
  shows "\<exists>zoneMap cfg' reqs'. getAZMap E cfg reqs1 = (zoneMap, cfg', reqs') \<and>
           getInstancesLabels E cfg reqs =
             Some (Inr (map (\<lambda>(ownerID, inst).
                      targetLabels (SanitizeLabelName E) inst ownerID (port cfg) zoneMap)
                    (eligibleInstances rs)), cfg', reqs')"
  using assms
  by (cases "getAZMap E cfg reqs1") (simp add: getInstancesLabels_def reservationsLoop_eq)

lemma length_eligibleInstances:
  "length (eligibleInstances rs) =
     length (filter (\<lambda>inst. PrivateIPAddress inst \<noteq> []) (concat (map InstanceSet rs)))"
  by (induction rs) (simp_all add: eligibleInstances_def)

lemma map_snd_eligibleInstances:
  "map snd (eligibleInstances rs) =
     filter (\<lambda>inst. PrivateIPAddress inst \<noteq> []) (concat (map InstanceSet rs))"
  by (induction rs) (simp_all add: eligibleInstances_def comp_def)

lemma targetLabels_metadata:
  shows "targetLabels san inst ownerID p zoneMap ''__address__'' =
           Some (JoinHostPort (PrivateIPAddress inst) p)"
    and "targetLabels san inst ownerID p zoneMap ''__meta_ec2_architecture'' =
           Some (Architecture inst)"
    and "targetLabels san inst ownerID p zoneMap ''__meta_ec2_ami'' = Some (ImageID inst)"
    and "targetLabels san inst ownerID p zoneMap ''__meta_ec2_availability_zone'' =
           Some (AvailabilityZone (Placement inst))"
    and "targetLabels san inst ownerID p zoneMap ''__meta_ec2_availability_zone_id'' =
           Some (lookupStr zoneMap (AvailabilityZone (Placement inst)))"
    and "targetLabels san inst ownerID p zoneMap ''__meta_ec2_instance_id'' = Some (ID inst)"
    and "targetLabels san inst ownerID p zoneMap ''__meta_ec2_instance_lifecycle'' =
           Some (Lifecycle inst)"
    and "targetLabels san inst ownerID p zoneMap ''__meta_ec2_instance_state'' =
           Some (Name (State inst))"
    and "targetLabels san inst ownerID p zoneMap ''__meta_ec2_instance_type'' = Some (Type inst)"
    and "targetLabels san inst ownerID p zoneMap ''__meta_ec2_owner_id'' = Some ownerID"
    and "targetLabels san inst ownerID p zoneMap ''__meta_ec2_platform'' = Some (Platform inst)"
    and "targetLabels san inst ownerID p zoneMap ''__meta_ec2_primary_subnet_id'' =
           Some (Instance.SubnetID inst)"
    and "targetLabels san inst ownerID p zoneMap ''__meta_ec2_private_dns_name'' =
           Some (PrivateDNSName inst)"
    and "targetLabels san inst ownerID p zoneMap ''__meta_ec2_private_ip'' =
           Some (PrivateIPAddress inst)"
    and "targetLabels san inst ownerID p zoneMap ''__meta_ec2_public_dns_name'' =
           Some (PublicDNSName inst)"
    and "targetLabels san inst ownerID p zoneMap ''__meta_ec2_public_ip'' =
           Some (PublicIPAddress inst)"
    and "targetLabels san inst ownerID p zoneMap ''__meta_ec2_vpc_id'' = Some (VPCID inst)"
  by (simp_all add: targetLabels_scalar scalarLabels_def)

section \<open>The page loop and the zone cache\<close>

lemma getReservationsLoop_step:
  assumes "transport E reqs ''DescribeInstances'' tok = Inr data"
    and "unmarshalInstances E data = Inr pg"
  shows "getReservationsLoop E reqs rs tok =
     (if NextPageToken pg = [] then
        Some (Inr (rs @ ReservationSet pg), reqs @ [(''DescribeInstances'', tok)])
      else getReservationsLoop E (reqs @ [(''DescribeInstances'', tok)])
             (rs @ ReservationSet pg) (NextPageToken pg))"
  by (subst getReservationsLoop.simps)
     (simp add: getEC2APIResponse_def parseInstancesResponse_def assms)

lemma getReservationsLoop_transport_error:
  assumes "transport E reqs ''DescribeInstances'' tok = Inl e"
  shows "getReservationsLoop E reqs rs tok =
     Some (Inl (Errorf ''cannot obtain instances'' e), reqs @ [(''DescribeInstances'', tok)])"
  by (subst getReservationsLoop.simps) (simp add: getEC2APIResponse_def assms)

lemma getReservationsLoop_parse_error:
  assumes "transport E reqs ''DescribeInstances'' tok = Inr data"
    and "unmarshalInstances E data = Inl e"
  shows "getReservationsLoop E reqs rs tok =
     Some (Inl (Errorf ''cannot parse instance list''
                 (ErrorfQ ''cannot unmarshal InstancesResponse from'' data e)),
           reqs @ [(''DescribeInstances'', tok)])"
  by (subst getReservationsLoop.simps)
     (simp add: getEC2APIResponse_def parseInstancesResponse_def assms)

lemma servesPages_Cons:
  "servesPages E reqs tok (pg # pgs) \<Longrightarrow>
     \<exists>data. transport E reqs ''DescribeInstances'' tok = Inr data \<and>
            unmarshalInstances E data = Inr pg \<and>
            servesPages E (reqs @ [(''DescribeInstances'', tok)]) (NextPageToken pg) pgs"
  by (auto split: sum.splits)

lemma getReservationsLoop_pages:
  assumes "pgs \<noteq> []" and "servesPages E reqs tok pgs"
    and "\<forall>pg \<in> set (butlast pgs). NextPageToken pg \<noteq> []"
    and "NextPageToken (last pgs) = []"
  shows "getReservationsLoop E reqs rs tok =
     Some (Inr (rs @ concat (map ReservationSet pgs)),
           reqs @ map (Pair ''DescribeInstances'') (tok # map NextPageToken (butlast pgs)))"
  using assms
proof (induction pgs arbitrary: reqs rs tok)
  case Nil
  then show ?case by simp
next
  case (Cons pg pgs)
  from servesPages_Cons [OF Cons.prems(2)]
  obtain data where t: "transport E reqs ''DescribeInstances'' tok = Inr data"
    and u: "unmarshalInstances E data = Inr pg"
    and rest: "servesPages E (reqs @ [(''DescribeInstances'', tok)]) (NextPageToken pg) pgs"
    by blast
  show ?case
  proof (cases "pgs = []")
    case True
    with Cons.prems(4) have "NextPageToken pg = []" by simp
    with True show ?thesis
      by (simp add: getReservationsLoop_step [OF t u])
  next
    case False
    with Cons.prems(3) have more: "NextPageToken pg \<noteq> []" by simp
    have b: "\<forall>pg \<in> set (butlast pgs). NextPageToken pg \<noteq> []"
      using Cons.prems(3) False by simp
    have l: "NextPageToken (last pgs) = []"
      using Cons.prems(4) False by simp
    show ?thesis
      using more False
      by (simp add: getReservationsLoop_step [OF t u] Cons.IH [OF False rest b l])
  qed
qed

lemma getReservationsLoop_failing_page:
  assumes "servesPages E reqs tok pgs"
    and "\<forall>pg \<in> set pgs. NextPageToken pg \<noteq> []"
    and "getReservationsLoop E (reqs @ map (Pair ''DescribeInstances'')
             (butlast (tok # map NextPageToken pgs)))
           (rs @ concat (map ReservationSet pgs)) (last (tok # map NextPageToken pgs)) = res"
  shows "getReservationsLoop E reqs rs tok = res"
  using assms
proof (induction pgs arbitrary: reqs rs tok)
  case Nil
  then show ?case by simp
next
  case (Cons pg pgs)
  from servesPages_Cons [OF Cons.prems(1)]
  obtain data where t: "transport E reqs ''DescribeInstances'' tok = Inr data"
    and u: "unmarshalInstances E data = Inr pg"
    and rest: "servesPages E (reqs @ [(''DescribeInstances'', tok)]) (NextPageToken pg) pgs"
    by blast
  have more: "NextPageToken pg \<noteq> []" and b: "\<forall>pg \<in> set pgs. NextPageToken pg \<noteq> []"
    using Cons.prems(2) by simp_all
  have "getReservationsLoop E (reqs @ [(''DescribeInstances'', tok)])
          (rs @ ReservationSet pg) (NextPageToken pg) = res"
    using Cons.prems(3) by (intro Cons.IH [OF rest b]) simp
  then show ?case
    using more by (simp add: getReservationsLoop_step [OF t u])
qed

lemma zonesLoop_eq:
  "zonesLoop azs m = m ++ map_of (rev (map (\<lambda>az. (ZoneName az, ZoneID az)) azs))"
proof (induction azs arbitrary: m)
  case Nil
  show ?case by simp
next
  case (Cons az azs)
  have "m(ZoneName az \<mapsto> ZoneID az) = m ++ [ZoneName az \<mapsto> ZoneID az]"
    by simp
  then show ?case
    by (simp add: Cons.IH map_add_assoc del: map_add_upd)
qed

lemma getAZMap_populated:
  "azMap cfg = Some zoneMap \<Longrightarrow> getAZMap E cfg reqs = (zoneMap, cfg, reqs)"
  by (simp add: getAZMap_def)

lemma getAZMap_failed:
  assumes "azMap cfg = None" and "fst (getAvailabilityZones E reqs) = Inl e"
  shows "fst (getAZMap E cfg reqs) = Map.empty"
  using assms by (cases "getAvailabilityZones E reqs") (auto simp add: getAZMap_def)

section \<open>The claims\<close>

text \<open>
  C10. For every instance with a non-empty private IP address but an empty VPC id, the
  label map produced has neither the subnet-id label nor the IPv6-addresses label,
  whatever its network interfaces carry; the VPC-id label is present, with an empty value.
\<close>

theorem C10_no_vpc_no_subnet_no_ipv6:
  assumes "PrivateIPAddress inst \<noteq> []" and "VPCID inst = []"
  shows "\<exists>m. appendTargetLabels san inst ms ownerID p zoneMap = ms @ [m] \<and>
           m ''__meta_ec2_subnet_id'' = None \<and>
           m ''__meta_ec2_ipv6_addresses'' = None \<and>
           m ''__meta_ec2_vpc_id'' = Some []"
  using assms
  by (simp add: appendTargetLabels_def targetLabels_subnet targetLabels_ipv6 targetLabels_vpc_id)

theorem C10_witness:
  "\<exists>m. appendTargetLabels id
          (instanceWith [] [\<lparr>NetworkInterface.SubnetID = ''s1'', IPv6AddressesSet = [''a'']\<rparr>] []) []
          ''owner'' 9100 Map.empty = [m] \<and>
       m ''__meta_ec2_subnet_id'' = None \<and>
       m ''__meta_ec2_ipv6_addresses'' = None \<and>
       m ''__meta_ec2_vpc_id'' = Some []"
  using C10_no_vpc_no_subnet_no_ipv6
    [of "instanceWith [] [\<lparr>NetworkInterface.SubnetID = ''s1'', IPv6AddressesSet = [''a'']\<rparr>] []"
      id "[]" "''owner''" 9100 Map.empty]
  by (simp add: instanceWith_def)

text \<open>
  C5. For every instance with a non-empty private IP address and a non-empty VPC id, the
  subnet-id label is present and is the comma-wrapped join of the non-empty subnet ids of
  its network interfaces, de-duplicated with the first occurrence kept and the order
  preserved; the IPv6 label is present only when some interface has an IPv6 address.
\<close>

theorem C5_subnet_label:
  assumes "PrivateIPAddress inst \<noteq> []" and "VPCID inst \<noteq> []"
  shows "\<exists>m. appendTargetLabels san inst ms ownerID p zoneMap = ms @ [m] \<and>
           m ''__meta_ec2_subnet_id'' =
             Some ('','' @ Join (dedupFirst (filter (\<lambda>s. s \<noteq> [])
                (map NetworkInterface.SubnetID (NetworkInterfaceSet inst)))) '','' @ '','') \<and>
           (m ''__meta_ec2_ipv6_addresses'' \<noteq> None \<longrightarrow>
              (\<exists>ni \<in> set (NetworkInterfaceSet inst). IPv6AddressesSet ni \<noteq> []))"
  using assms
  by (auto simp add: appendTargetLabels_def targetLabels_subnet targetLabels_ipv6)

theorem C5_witness:
  "\<exists>m. appendTargetLabels id
          (instanceWith ''vpc-1''
             [nic ''s1'' [], nic ''s1'' [], nic ''s2'' [], nic [] [], nic ''s3'' []] [])
          [] ''owner'' 9100 exampleZones = [m] \<and>
       m ''__meta_ec2_subnet_id'' = Some '',s1,s2,s3,'' \<and>
       m ''__meta_ec2_ipv6_addresses'' = None"
  using C5_subnet_label
    [of "instanceWith ''vpc-1''
          [nic ''s1'' [], nic ''s1'' [], nic ''s2'' [], nic [] [], nic ''s3'' []] []"
      id "[]" "''owner''" 9100 exampleZones]
  by (auto simp add: instanceWith_def nic_def)

text \<open>
  C1, as amended. For every instance with a non-empty private IP address and a non-empty
  VPC id, the IPv6-addresses label is the comma-wrapped join of the IPv6 addresses of the
  network interfaces whose subnet id is not empty, in interface order and then in the
  order within each interface, duplicates kept; it is absent when there is no such
  address. An interface with an empty subnet id contributes nothing.
\<close>

theorem C1_ipv6_label:
  assumes "PrivateIPAddress inst \<noteq> []" and "VPCID inst \<noteq> []"
  shows "\<exists>m. appendTargetLabels san inst ms ownerID p zoneMap = ms @ [m] \<and>
           m ''__meta_ec2_ipv6_addresses'' =
             (let addrs = concat (map IPv6AddressesSet
                    (filter (\<lambda>ni. NetworkInterface.SubnetID ni \<noteq> [])
                       (NetworkInterfaceSet inst)))
              in if addrs = [] then None else Some ('','' @ Join addrs '','' @ '',''))"
  using assms
  by (simp add: appendTargetLabels_def targetLabels_ipv6 Let_def)

theorem C1_witness:
  "\<exists>m. appendTargetLabels id
          (instanceWith ''vpc-1'' [nic ''s1'' [''a'', ''b''], nic ''s2'' [], nic ''s1'' [''c'']] [])
          [] ''owner'' 9100 exampleZones = [m] \<and>
       m ''__meta_ec2_ipv6_addresses'' = Some '',a,b,c,''"
  using C1_ipv6_label
    [of "instanceWith ''vpc-1'' [nic ''s1'' [''a'', ''b''], nic ''s2'' [], nic ''s1'' [''c'']] []"
      id "[]" "''owner''" 9100 exampleZones]
  by (simp add: instanceWith_def nic_def)

text \<open>
  The claim as first stated takes the addresses of every interface. With interfaces
  carrying \<open>[a, b]\<close> under an empty subnet id, nothing, and \<open>[c]\<close>, the label is not
  \<open>,a,b,c,\<close>.
\<close>

theorem C1_counterexample:
  "hd (appendTargetLabels id
         (instanceWith ''vpc-1'' [nic [] [''a'', ''b''], nic ''s1'' [], nic ''s1'' [''c'']] [])
         [] ''owner'' 9100 exampleZones) ''__meta_ec2_ipv6_addresses'' \<noteq> Some '',a,b,c,''"
  by (simp add: appendTargetLabels_def targetLabels_ipv6 instanceWith_def nic_def)

text \<open>
  C8. For every instance that produces a label map and every sanitized key \<open>k\<close>: the
  label named by the tag prefix followed by \<open>k\<close> exists exactly when some tag with a
  non-empty key and a non-empty value sanitizes to \<open>k\<close>, and its value is the raw value
  of the last such tag. Tags with an empty key or an empty value contribute no label.
\<close>

theorem C8_tag_labels:
  assumes "PrivateIPAddress inst \<noteq> []"
  shows "\<exists>m. appendTargetLabels san inst ms ownerID p zoneMap = ms @ [m] \<and>
           (\<forall>k. m (''__meta_ec2_tag_'' @ k) =
              (case filter (\<lambda>t. Key t \<noteq> [] \<and> Value t \<noteq> [] \<and> san (Key t) = k) (TagSet inst) of
                 [] \<Rightarrow> None
               | t # ts \<Rightarrow> Some (Value (last (t # ts)))))"
proof (intro exI conjI allI)
  show "appendTargetLabels san inst ms ownerID p zoneMap =
          ms @ [targetLabels san inst ownerID p zoneMap]"
    using assms by (simp add: appendTargetLabels_def)
  show "targetLabels san inst ownerID p zoneMap (''__meta_ec2_tag_'' @ k) =
          (case filter (\<lambda>t. Key t \<noteq> [] \<and> Value t \<noteq> [] \<and> san (Key t) = k) (TagSet inst) of
             [] \<Rightarrow> None
           | t # ts \<Rightarrow> Some (Value (last (t # ts))))" for k
    by (rule targetLabels_tag)
qed

theorem C8_witness:
  "\<exists>m. appendTargetLabels colonToUnderscore
          (instanceWith ''vpc-1'' []
             [\<lparr>Key = ''Env:Prod'', Value = ''a''\<rparr>, \<lparr>Key = [], Value = ''x''\<rparr>,
              \<lparr>Key = ''team'', Value = []\<rparr>, \<lparr>Key = ''Env_Prod'', Value = ''b''\<rparr>])
          [] ''owner'' 9100 exampleZones = [m] \<and>
       m ''__meta_ec2_tag_Env_Prod'' = Some ''b'' \<and>
       m ''__meta_ec2_tag_'' = None \<and>
       m ''__meta_ec2_tag_team'' = None"
proof -
  let ?inst = "instanceWith ''vpc-1'' []
             [\<lparr>Key = ''Env:Prod'', Value = ''a''\<rparr>, \<lparr>Key = [], Value = ''x''\<rparr>,
              \<lparr>Key = ''team'', Value = []\<rparr>, \<lparr>Key = ''Env_Prod'', Value = ''b''\<rparr>]"
  have ip: "PrivateIPAddress ?inst \<noteq> []" by (simp add: instanceWith_def)
  from C8_tag_labels [OF ip, of colonToUnderscore "[]" "''owner''" 9100 exampleZones]
  obtain m where m: "appendTargetLabels colonToUnderscore ?inst [] ''owner'' 9100 exampleZones = [m]"
    and tags: "\<And>k. m (''__meta_ec2_tag_'' @ k) =
              (case filter (\<lambda>t. Key t \<noteq> [] \<and> Value t \<noteq> [] \<and> colonToUnderscore (Key t) = k)
                      (TagSet ?inst) of
                 [] \<Rightarrow> None | t # ts \<Rightarrow> Some (Value (last (t # ts))))"
    by auto
  have "m ''__meta_ec2_tag_Env_Prod'' = Some ''b''"
    using tags [of "''Env_Prod''"] by (simp add: instanceWith_def colonToUnderscore_def)
  moreover have "m ''__meta_ec2_tag_'' = None"
    using tags [of "[]"] by (simp add: instanceWith_def colonToUnderscore_def)
  moreover have "m ''__meta_ec2_tag_team'' = None"
    using tags [of "''team''"] by (simp add: instanceWith_def colonToUnderscore_def)
  ultimately show ?thesis using m by simp
qed

text \<open>
  C2. Whenever the reservation fetch returns, the discovery call returns label maps: as
  many as there are instances with a non-empty private IP address, one for each such
  instance and in their order, each with the address label \<open>privateIp:port\<close>. An
  instance with an empty private IP address has no label map.
\<close>

theorem C2_one_label_map_per_addressable_instance:
  assumes "getReservations E reqs = Some (Inr rs, reqs1)"
  shows "\<exists>ms cfg' reqs'.
           getInstancesLabels E cfg reqs = Some (Inr ms, cfg', reqs') \<and>
           length ms =
             length (filter (\<lambda>inst. PrivateIPAddress inst \<noteq> []) (concat (map InstanceSet rs))) \<and>
           map (\<lambda>m. m ''__address__'') ms =
             map (\<lambda>inst. Some (PrivateIPAddress inst @ '':'' @ Itoa (port cfg)))
               (filter (\<lambda>inst. PrivateIPAddress inst \<noteq> []) (concat (map InstanceSet rs)))"
proof -
  from getInstancesLabels_ok [OF assms, of cfg]
  obtain zoneMap cfg' reqs' where
    run: "getInstancesLabels E cfg reqs =
             Some (Inr (map (\<lambda>(ownerID, inst).
                      targetLabels (SanitizeLabelName E) inst ownerID (port cfg) zoneMap)
                    (eligibleInstances rs)), cfg', reqs')"
    by blast
  have addr: "targetLabels san inst ownerID p zm ''__address__'' =
                Some (PrivateIPAddress inst @ '':'' @ Itoa p)" for san inst ownerID p zm
    by (subst targetLabels_scalar) (simp_all add: scalarLabels_def JoinHostPort_def)
  have "map (\<lambda>m. m ''__address__'')
          (map (\<lambda>(ownerID, inst).
              targetLabels (SanitizeLabelName E) inst ownerID (port cfg) zoneMap)
            (eligibleInstances rs)) =
        map (\<lambda>inst. Some (PrivateIPAddress inst @ '':'' @ Itoa (port cfg)))
          (map snd (eligibleInstances rs))"
    by (simp add: addr split_def comp_def)
  then show ?thesis
    using run by (simp add: length_eligibleInstances map_snd_eligibleInstances)
qed

theorem C2_witness:
  "\<exists>ms cfg' reqs'.
     getInstancesLabels exampleEnv exampleConfig [] = Some (Inr ms, cfg', reqs') \<and>
     length ms = 2 \<and>
     map (\<lambda>m. m ''__address__'') ms = [Some ''10.0.0.7:9100'', Some ''10.0.0.9:9100'']"
  using C2_one_label_map_per_addressable_instance [OF getReservations_example, of exampleConfig]
  by (simp add: reservation1_def reservation2_def reservation3_def instanceWith_def
      exampleConfig_def Itoa_def decimal.simps digit_def numeral_2_eq_2)

text \<open>
  C9. Whenever the reservation fetch returns, the label maps of the discovery call
  correspond one to one to the instances with a non-empty private IP address, and each
  holds a non-empty address label and the sixteen metadata labels with the values of
  its instance; the zone identifier is read from the zone map by the zone name and is
  empty when the name is absent.
\<close>

theorem C9_metadata_labels:
  assumes "getReservations E reqs = Some (Inr rs, reqs1)"
  shows "\<exists>ms cfg' reqs' zoneMap.
           getInstancesLabels E cfg reqs = Some (Inr ms, cfg', reqs') \<and>
           azMap cfg' = Some zoneMap \<and>
           list_all2 (\<lambda>m (ownerID, inst).
               m ''__address__'' = Some (JoinHostPort (PrivateIPAddress inst) (port cfg)) \<and>
               JoinHostPort (PrivateIPAddress inst) (port cfg) \<noteq> [] \<and>
               m ''__meta_ec2_architecture'' = Some (Architecture inst) \<and>
               m ''__meta_ec2_ami'' = Some (ImageID inst) \<and>
               m ''__meta_ec2_availability_zone'' = Some (AvailabilityZone (Placement inst)) \<and>
               m ''__meta_ec2_availability_zone_id'' =
                 Some (case zoneMap (AvailabilityZone (Placement inst)) of
                         None \<Rightarrow> [] | Some zoneID \<Rightarrow> zoneID) \<and>
               m ''__meta_ec2_instance_id'' = Some (ID inst) \<and>
               m ''__meta_ec2_instance_lifecycle'' = Some (Lifecycle inst) \<and>
               m ''__meta_ec2_instance_state'' = Some (Name (State inst)) \<and>
               m ''__meta_ec2_instance_type'' = Some (Type inst) \<and>
               m ''__meta_ec2_owner_id'' = Some ownerID \<and>
               m ''__meta_ec2_platform'' = Some (Platform inst) \<and>
               m ''__meta_ec2_primary_subnet_id'' = Some (Instance.SubnetID inst) \<and>
               m ''__meta_ec2_private_dns_name'' = Some (PrivateDNSName inst) \<and>
               m ''__meta_ec2_private_ip'' = Some (PrivateIPAddress inst) \<and>
               m ''__meta_ec2_public_dns_name'' = Some (PublicDNSName inst) \<and>
               m ''__meta_ec2_public_ip'' = Some (PublicIPAddress inst) \<and>
               m ''__meta_ec2_vpc_id'' = Some (VPCID inst))
             ms (eligibleInstances rs)"
proof -
  from getInstancesLabels_ok [OF assms, of cfg]
  obtain zoneMap cfg' reqs' where
    az: "getAZMap E cfg reqs1 = (zoneMap, cfg', reqs')" and
    run: "getInstancesLabels E cfg reqs =
             Some (Inr (map (\<lambda>(ownerID, inst).
                      targetLabels (SanitizeLabelName E) inst ownerID (port cfg) zoneMap)
                    (eligibleInstances rs)), cfg', reqs')"
    by blast
  have cached: "azMap cfg' = Some zoneMap"
    using getAZMap_cached [OF az] by simp
  show ?thesis
    unfolding run
    by (intro exI conjI, rule refl, rule cached)
       (simp add: list_all2_map1 list_all2_same split_def targetLabels_metadata
          JoinHostPort_nonempty lookupStr_def)
qed

theorem C9_witness:
  "\<exists>m1 m2 cfg' reqs'.
     getInstancesLabels exampleEnv exampleConfig [] = Some (Inr [m1, m2], cfg', reqs') \<and>
     m1 ''__address__'' = Some ''10.0.0.7:9100'' \<and>
     m1 ''__meta_ec2_availability_zone'' = Some ''us-east-1a'' \<and>
     m1 ''__meta_ec2_availability_zone_id'' = Some ''use1-az1'' \<and>
     m1 ''__meta_ec2_owner_id'' = Some ''owner-1'' \<and>
     m1 ''__meta_ec2_vpc_id'' = Some ''vpc-1'' \<and>
     m2 ''__meta_ec2_private_ip'' = Some ''10.0.0.9'' \<and>
     m2 ''__meta_ec2_owner_id'' = Some ''owner-3'' \<and>
     m2 ''__meta_ec2_vpc_id'' = Some []"
proof -
  have eval: "\<exists>ms0 reqs0. getInstancesLabels exampleEnv exampleConfig [] =
      Some (Inr ms0, exampleConfig\<lparr>azMap := Some [''us-east-1a'' \<mapsto> ''use1-az1'']\<rparr>, reqs0)"
    unfolding getInstancesLabels_def getReservations_example
    by (simp add: getAZMap_def getAvailabilityZones_def
        getEC2APIResponse_def parseAvailabilityZonesResponse_def exampleEnv_def
        exampleTransport_def exampleUnmarshalZones_def exampleConfig_def)
  from C9_metadata_labels [OF getReservations_example, of exampleConfig]
  obtain ms cfg' reqs' zoneMap where
    run: "getInstancesLabels exampleEnv exampleConfig [] = Some (Inr ms, cfg', reqs')" and
    az: "azMap cfg' = Some zoneMap" and
    all: "list_all2 (\<lambda>m (ownerID, inst).
               m ''__address__'' = Some (JoinHostPort (PrivateIPAddress inst) (port exampleConfig)) \<and>
               JoinHostPort (PrivateIPAddress inst) (port exampleConfig) \<noteq> [] \<and>
               m ''__meta_ec2_architecture'' = Some (Architecture inst) \<and>
               m ''__meta_ec2_ami'' = Some (ImageID inst) \<and>
               m ''__meta_ec2_availability_zone'' = Some (AvailabilityZone (Placement inst)) \<and>
               m ''__meta_ec2_availability_zone_id'' =
                 Some (case zoneMap (AvailabilityZone (Placement inst)) of
                         None \<Rightarrow> [] | Some zoneID \<Rightarrow> zoneID) \<and>
               m ''__meta_ec2_instance_id'' = Some (ID inst) \<and>
               m ''__meta_ec2_instance_lifecycle'' = Some (Lifecycle inst) \<and>
               m ''__meta_ec2_instance_state'' = Some (Name (State inst)) \<and>
               m ''__meta_ec2_instance_type'' = Some (Type inst) \<and>
               m ''__meta_ec2_owner_id'' = Some ownerID \<and>
               m ''__meta_ec2_platform'' = Some (Platform inst) \<and>
               m ''__meta_ec2_primary_subnet_id'' = Some (Instance.SubnetID inst) \<and>
               m ''__meta_ec2_private_dns_name'' = Some (PrivateDNSName inst) \<and>
               m ''__meta_ec2_private_ip'' = Some (PrivateIPAddress inst) \<and>
               m ''__meta_ec2_public_dns_name'' = Some (PublicDNSName inst) \<and>
               m ''__meta_ec2_public_ip'' = Some (PublicIPAddress inst) \<and>
               m ''__meta_ec2_vpc_id'' = Some (VPCID inst))
             ms (eligibleInstances [reservation1, reservation2, reservation3])"
    by blast
  from eval run have "cfg' = exampleConfig\<lparr>azMap := Some [''us-east-1a'' \<mapsto> ''use1-az1'']\<rparr>"
    by auto
  with az have zm: "zoneMap = [''us-east-1a'' \<mapsto> ''use1-az1'']"
    by simp
  have el: "eligibleInstances [reservation1, reservation2, reservation3] =
      [(''owner-1'', instanceWith ''vpc-1'' [nic ''s1'' [''a'']] []),
       (''owner-3'', (instanceWith [] [] [])\<lparr>PrivateIPAddress := ''10.0.0.9''\<rparr>)]"
    by (simp add: eligibleInstances_def reservation1_def reservation2_def reservation3_def
        instanceWith_def)
  from all obtain m1 m2 where ms: "ms = [m1, m2]"
    and m1: "m1 ''__address__'' = Some ''10.0.0.7:9100''"
      "m1 ''__meta_ec2_availability_zone'' = Some ''us-east-1a''"
      "m1 ''__meta_ec2_availability_zone_id'' = Some ''use1-az1''"
      "m1 ''__meta_ec2_owner_id'' = Some ''owner-1''"
      "m1 ''__meta_ec2_vpc_id'' = Some ''vpc-1''"
    and m2: "m2 ''__meta_ec2_private_ip'' = Some ''10.0.0.9''"
      "m2 ''__meta_ec2_owner_id'' = Some ''owner-3''"
      "m2 ''__meta_ec2_vpc_id'' = Some []"
    unfolding el zm
    by (auto simp add: list_all2_Cons2 instanceWith_def exampleConfig_def JoinHostPort_def
        Itoa_def decimal.simps digit_def)
  show ?thesis
    using run m1 m2 unfolding ms by blast
qed

text \<open>
  C6. The reservation fetch starts with the empty token, adopts the next-token of each
  page and stops at the first page whose next-token is empty: for every non-empty
  sequence of pages served in this way, of which only the last has an empty next-token,
  the fetch returns, its result is the concatenation of the reservations of all pages in
  page order, and it has made one request per page.
\<close>

theorem C6_pages_concatenated:
  assumes "pgs \<noteq> []" and "servesPages E reqs [] pgs"
    and "\<forall>pg \<in> set (butlast pgs). NextPageToken pg \<noteq> []"
    and "NextPageToken (last pgs) = []"
  shows "getReservations E reqs =
     Some (Inr (concat (map ReservationSet pgs)),
           reqs @ map (Pair ''DescribeInstances'') ([] # map NextPageToken (butlast pgs)))"
  using getReservationsLoop_pages [OF assms, of "[]"]
  by (simp add: getReservations_def)

theorem C6_witness:
  "getReservations exampleEnv [] =
     Some (Inr [reservation1, reservation2, reservation3],
           [(''DescribeInstances'', []), (''DescribeInstances'', ''t2''),
            (''DescribeInstances'', ''t3'')])"
  using C6_pages_concatenated [of examplePages exampleEnv "[]"]
  by (simp add: examplePages_def exampleEnv_def exampleTransport_def
      exampleUnmarshalInstances_def)

text \<open>
  C7. If, after any number of pages that were fetched and decoded and that each named a
  next page, the next request fails in the transport or its payload fails to decode, the
  reservation fetch returns the wrapped error and no reservation, and the discovery call
  returns the same error and no label map; the reservations of the earlier pages are
  dropped, and the configuration is left as it was.
\<close>

theorem C7_fetch_is_fail_atomic:
  assumes "servesPages E reqs [] pgs"
    and "\<forall>pg \<in> set pgs. NextPageToken pg \<noteq> []"
    and "toks = [] # map NextPageToken pgs"
    and "reqs' = reqs @ map (Pair ''DescribeInstances'') (butlast toks)"
    and "transport E reqs' ''DescribeInstances'' (last toks) = Inl e \<and>
           err = Errorf ''cannot obtain instances'' e \<or>
         (\<exists>data. transport E reqs' ''DescribeInstances'' (last toks) = Inr data \<and>
            unmarshalInstances E data = Inl e \<and>
            err = Errorf ''cannot parse instance list''
                    (ErrorfQ ''cannot unmarshal InstancesResponse from'' data e))"
  shows "getReservations E reqs = Some (Inl err, reqs' @ [(''DescribeInstances'', last toks)]) \<and>
         getInstancesLabels E cfg reqs =
           Some (Inl err, cfg, reqs' @ [(''DescribeInstances'', last toks)])"
proof -
  have "getReservationsLoop E reqs' (concat (map ReservationSet pgs)) (last toks) =
          Some (Inl err, reqs' @ [(''DescribeInstances'', last toks)])"
    using assms(5)
    by (auto simp add: getReservationsLoop_transport_error getReservationsLoop_parse_error)
  then have "getReservationsLoop E reqs [] [] =
          Some (Inl err, reqs' @ [(''DescribeInstances'', last toks)])"
    unfolding assms(3,4)
    by (intro getReservationsLoop_failing_page [OF assms(1,2)]) simp
  then show ?thesis
    by (simp add: getReservations_def getInstancesLabels_def)
qed

theorem C7_witness:
  "getReservations failingEnv [] =
     Some (Inl (Errorf ''cannot obtain instances'' (External ''timeout'')),
           [(''DescribeInstances'', []), (''DescribeInstances'', ''t2''),
            (''DescribeInstances'', ''t3'')]) \<and>
   getInstancesLabels failingEnv exampleConfig [] =
     Some (Inl (Errorf ''cannot obtain instances'' (External ''timeout'')), exampleConfig,
           [(''DescribeInstances'', []), (''DescribeInstances'', ''t2''),
            (''DescribeInstances'', ''t3'')])"
proof -
  have served: "servesPages failingEnv [] [] (butlast examplePages)"
    by (simp add: examplePages_def failingEnv_def exampleEnv_def exampleTransport_def
        timeoutOn_def exampleUnmarshalInstances_def)
  have more: "\<forall>pg \<in> set (butlast examplePages). NextPageToken pg \<noteq> []"
    by (simp add: examplePages_def)
  have toks: "[[], ''t2'', ''t3''] = [] # map NextPageToken (butlast examplePages)"
    by (simp add: examplePages_def)
  have reqs: "[(''DescribeInstances'', []), (''DescribeInstances'', ''t2'')] =
      [] @ map (Pair ''DescribeInstances'') (butlast [[], ''t2'', ''t3''])"
    by simp
  have fails: "transport failingEnv [(''DescribeInstances'', []), (''DescribeInstances'', ''t2'')]
        ''DescribeInstances'' (last [[], ''t2'', ''t3'']) = Inl (External ''timeout'')"
    by (simp add: failingEnv_def exampleEnv_def timeoutOn_def)
  show ?thesis
    using C7_fetch_is_fail_atomic [OF served more toks reqs, of "External ''timeout''"
        "Errorf ''cannot obtain instances'' (External ''timeout'')" exampleConfig] fails
    by simp
qed

text \<open>
  C3, as amended. The first resolution of the zone map makes exactly one zone-list
  request, with the empty token, and builds the name-to-id mapping from the zones of that
  one response (the empty mapping if the request or the decoding fails). No further
  page is requested, whatever the response carries.
\<close>

theorem C3_single_zone_request:
  assumes "azMap cfg = None"
  shows "\<exists>zoneMap cfg'.
           getAZMap E cfg reqs =
             (zoneMap, cfg', reqs @ [(''DescribeAvailabilityZones'', [])]) \<and>
           zoneMap =
             (case transport E reqs ''DescribeAvailabilityZones'' [] of
                Inl e \<Rightarrow> Map.empty
              | Inr data \<Rightarrow>
                  (case unmarshalZones E data of
                     Inl e \<Rightarrow> Map.empty
                   | Inr azr \<Rightarrow> zonesLoop (AvailabilityZoneInfo azr) Map.empty))"
  using assms
  by (simp add: getAZMap_def getAvailabilityZones_def getEC2APIResponse_def
      parseAvailabilityZonesResponse_def split: sum.split)

theorem C3_witness:
  "\<exists>zoneMap cfg'.
     getAZMap exampleEnv exampleConfig [] =
       (zoneMap, cfg', [(''DescribeAvailabilityZones'', [])]) \<and>
     zoneMap ''us-east-1a'' = Some ''use1-az1''"
  using C3_single_zone_request [of exampleConfig exampleEnv "[]"]
  by (auto simp add: exampleConfig_def exampleEnv_def exampleTransport_def
      exampleUnmarshalZones_def)

text \<open>
  The claim as first stated lets the fetch follow a continuation token. With a zone list
  in two pages the resolver makes the first request only, and the zone of the second
  page is not in the mapping.
\<close>

theorem C3_counterexample:
  "snd (snd (getAZMap
       (exampleEnv\<lparr>transport := pagedZonesTransport, unmarshalZones := pagedUnmarshalZones\<rparr>)
       exampleConfig [])) = [(''DescribeAvailabilityZones'', [])] \<and>
   fst (getAZMap
       (exampleEnv\<lparr>transport := pagedZonesTransport, unmarshalZones := pagedUnmarshalZones\<rparr>)
       exampleConfig []) ''us-east-1b'' = None \<and>
   pagedUnmarshalZones ''zones:z2'' =
     Inr \<lparr>AvailabilityZoneInfo = [\<lparr>ZoneName = ''us-east-1b'', ZoneID = ''use1-az2''\<rparr>]\<rparr>"
  by (simp add: getAZMap_def getAvailabilityZones_def getEC2APIResponse_def
      parseAvailabilityZonesResponse_def exampleConfig_def exampleEnv_def
      pagedZonesTransport_def pagedUnmarshalZones_def)

text \<open>
  C4. After the first access to the zone map of a configuration the cache is populated,
  possibly with the empty mapping; every later access returns the same mapping and makes
  no request, also when the first attempt failed. A failed fetch gives the empty mapping,
  in which every zone name reads as the empty identifier. The discovery call never
  returns an error because of the zones: it returns label maps whenever the reservation
  fetch returns reservations, and a later discovery call makes no request beyond those
  of its reservation fetch.
\<close>

theorem C4_zones_resolved_once:
  assumes "getAZMap E cfg reqs = (zoneMap, cfg', reqs')"
  shows "azMap cfg' = Some zoneMap \<and>
         (\<forall>reqs2. getAZMap E cfg' reqs2 = (zoneMap, cfg', reqs2)) \<and>
         (\<forall>e. azMap cfg = None \<and> fst (getAvailabilityZones E reqs) = Inl e \<longrightarrow>
              zoneMap = Map.empty \<and> (\<forall>zoneName. lookupStr zoneMap zoneName = [])) \<and>
         (\<forall>reqs2 rs reqs3. getReservations E reqs2 = Some (Inr rs, reqs3) \<longrightarrow>
              getInstancesLabels E cfg' reqs2 =
                Some (Inr (reservationsLoop (SanitizeLabelName E) (port cfg') zoneMap rs []),
                      cfg', reqs3)) \<and>
         (\<forall>reqs0 rs reqs1. getReservations E reqs0 = Some (Inr rs, reqs1) \<longrightarrow>
              (\<exists>ms cfg1 reqs2. getInstancesLabels E cfg reqs0 = Some (Inr ms, cfg1, reqs2)))"
proof (intro conjI allI impI)
  show cached: "azMap cfg' = Some zoneMap"
    using getAZMap_cached [OF assms] by simp
  show again: "getAZMap E cfg' reqs2 = (zoneMap, cfg', reqs2)" for reqs2
    by (rule getAZMap_populated [OF cached])
  show "zoneMap = Map.empty"
    if "azMap cfg = None \<and> fst (getAvailabilityZones E reqs) = Inl e" for e
    using getAZMap_failed [of cfg E reqs e] that assms by simp
  then show "lookupStr zoneMap zoneName = []"
    if "azMap cfg = None \<and> fst (getAvailabilityZones E reqs) = Inl e" for e zoneName
    using that by (simp add: lookupStr_def)
  show "getInstancesLabels E cfg' reqs2 =
          Some (Inr (reservationsLoop (SanitizeLabelName E) (port cfg') zoneMap rs []),
                cfg', reqs3)"
    if "getReservations E reqs2 = Some (Inr rs, reqs3)" for reqs2 rs reqs3
    using that by (simp add: getInstancesLabels_def again)
  show "\<exists>ms cfg1 reqs2. getInstancesLabels E cfg reqs0 = Some (Inr ms, cfg1, reqs2)"
    if "getReservations E reqs0 = Some (Inr rs, reqs1)" for reqs0 rs reqs1
    using getInstancesLabels_ok [OF that, of cfg] by blast
qed

theorem C4_witness:
  "getAZMap flakyEnv exampleConfig [] =
     (Map.empty, exampleConfig\<lparr>azMap := Some Map.empty\<rparr>, [(''DescribeAvailabilityZones'', [])]) \<and>
   transport flakyEnv [(''DescribeAvailabilityZones'', [])] ''DescribeAvailabilityZones'' [] =
     Inr ''zones'' \<and>
   getAZMap flakyEnv (exampleConfig\<lparr>azMap := Some Map.empty\<rparr>)
       [(''DescribeAvailabilityZones'', [])] =
     (Map.empty, exampleConfig\<lparr>azMap := Some Map.empty\<rparr>, [(''DescribeAvailabilityZones'', [])]) \<and>
   lookupStr Map.empty ''us-east-1a'' = []"
proof -
  have first: "getAZMap flakyEnv exampleConfig [] =
     (Map.empty, exampleConfig\<lparr>azMap := Some Map.empty\<rparr>, [(''DescribeAvailabilityZones'', [])])"
    by (simp add: getAZMap_def getAvailabilityZones_def getEC2APIResponse_def
        flakyEnv_def exampleEnv_def flakyZones_def exampleConfig_def)
  have failed: "azMap exampleConfig = None \<and>
      fst (getAvailabilityZones flakyEnv []) =
        Inl (Errorf ''cannot obtain availability zones'' (External ''timeout''))"
    by (simp add: getAvailabilityZones_def getEC2APIResponse_def
        flakyEnv_def exampleEnv_def flakyZones_def exampleConfig_def)
  have later: "transport flakyEnv [(''DescribeAvailabilityZones'', [])]
      ''DescribeAvailabilityZones'' [] = Inr ''zones''"
    by (simp add: flakyEnv_def exampleEnv_def flakyZones_def exampleTransport_def)
  from C4_zones_resolved_once [OF first] failed
  have "getAZMap flakyEnv (exampleConfig\<lparr>azMap := Some Map.empty\<rparr>)
          [(''DescribeAvailabilityZones'', [])] =
        (Map.empty, exampleConfig\<lparr>azMap := Some Map.empty\<rparr>, [(''DescribeAvailabilityZones'', [])])"
    and "lookupStr Map.empty ''us-east-1a'' = []"
    by blast+
  with first later show ?thesis by blast
qed

end
